theory Spec2Isabelle
  imports Complex_Main
begin

section \<open>Cyclic-voltammetry parameter validation (\<open>SetupCV.setup\<close>)\<close>

text \<open>
  The theory embeds \<^verbatim>\<open>SetupCV.setup\<close> of
  \<^verbatim>\<open>Python/FreiStat/Electrochemical_methods/Setup_behavior/setup_cv.py\<close>.
  A parameter value is a \<open>real\<close> and an error code is an \<open>int\<close>. The model \<open>setup_cv\<close>
  computes exactly, as Python does on ints; \<open>setup_cv_double\<close> rounds every arithmetic
  result as Python does on floats. NaN and the infinities are outside both.
\<close>

subsection \<open>Data\<close>

text \<open>An entry of \<^verbatim>\<open>listExperimentParameters\<close> is the two-element list \<^verbatim>\<open>[name, value]\<close>.\<close>

type_synonym parameter = "string \<times> real"

text \<open>An entry of \<^verbatim>\<open>listReferenceList\<close> is \<^verbatim>\<open>[name, lower, upper]\<close>.\<close>

type_synonym reference = "string \<times> real \<times> real"

definition ref_name :: "reference \<Rightarrow> string" where
  "ref_name r = fst r"

definition ref_lower :: "reference \<Rightarrow> real" where
  "ref_lower r = fst (snd r)"

definition ref_upper :: "reference \<Rightarrow> real" where
  "ref_upper r = snd (snd r)"

text \<open>Indexing a Python list out of range raises \<^verbatim>\<open>IndexError\<close>.\<close>

datatype error = IndexError

definition item :: "'a list \<Rightarrow> nat \<Rightarrow> error + 'a" where
  "item xs i = (if i < length xs then Inr (xs ! i) else Inl IndexError)"

text \<open>
  The collaborator calls of the success path, recorded in the order they are made:
  \<^verbatim>\<open>self._dataHandling.save_ExperimentType(CV)\<close>,
  \<^verbatim>\<open>self._dataHandling.save_ExperimentParmeters(listExperimentParameters)\<close>,
  \<^verbatim>\<open>self._dataSoftwareStorage._dataHandling.setup_ExportFiles()\<close>.
\<close>

datatype call =
    save_ExperimentType string
  | save_ExperimentParmeters "parameter list"
  | setup_ExportFiles

subsection \<open>Constants imported from \<^verbatim>\<open>data_storage.constants\<close>\<close>

text \<open>
  The numeric limits of the module \<^verbatim>\<open>constants\<close> are a parameter of the model: every
  theorem about \<open>setup\<close> holds for each value of this record.
\<close>

record limits =
  VOLTAGE_RANGE :: real
  VOLTAGE_RANGE_FWP :: real
  MIN_STEP_SIZE :: real
  MAX_STEP_SIZE :: real
  MIN_SCAN_RATE :: real
  MAX_SCAN_RATE :: real
  MIN_CYCLE :: real
  MAX_CYCLE :: real
  LPTIARTIA_OPEN :: real
  LPTIARTIA_512K :: real
  ADCSINC2OSR_DISABLED :: real
  ADCSINC2OSR_1333 :: real
  ADCSINC3OSR_DISABLED :: real
  ADCSINC3OSR_2 :: real

text \<open>
  Modelled from the spec: the error-code constants of the missing module
  \<^verbatim>\<open>constants\<close>. The values are those of the error-code table in the docstring of
  \<open>setup\<close> (0, 11001, 11002, 11100 + i, 11200 + i) and of the spec's table
  (base + 1, base + 2, base + 100 + i, base + 200 + i).
\<close>

definition EC_NO_ERROR :: int where
  "EC_NO_ERROR = 0"

definition EC_SETUP :: int where
  "EC_SETUP = 11000"

definition EC_SE_AMOUNT_PARAMETER :: int where
  "EC_SE_AMOUNT_PARAMETER = 1"

definition EC_SE_SCAN_RANGE_ERROR :: int where
  "EC_SE_SCAN_RANGE_ERROR = 2"

definition EC_SE_PARAM_NOT_FOUND :: int where
  "EC_SE_PARAM_NOT_FOUND = 100"

definition EC_SE_PARAM_OUT_OF_BOUND :: int where
  "EC_SE_PARAM_OUT_OF_BOUND = 200"

text \<open>
  Modelled from the spec: the expected number of entries of the missing module
  \<^verbatim>\<open>constants\<close> (11 entries for cyclic voltammetry) and the identifier of the mode.
\<close>

definition CV_NUM_PARAMETER :: nat where
  "CV_NUM_PARAMETER = 11"

definition CV :: string where
  "CV = ''CV''"

text \<open>
  Modelled from the spec: the parameter identifiers of the missing module
  \<^verbatim>\<open>constants\<close>, each constant holding the name that the spec and the docstring of
  \<open>setup\<close> give to the parameter it stands for.
\<close>

definition START_POTENTIAL :: string where
  "START_POTENTIAL = ''StartVoltage''"

definition LOWER_POTENTIAL :: string where
  "LOWER_POTENTIAL = ''FirstVertex''"

definition UPPER_POTENTIAL :: string where
  "UPPER_POTENTIAL = ''SecondVertex''"

definition STEP_SIZE :: string where
  "STEP_SIZE = ''Stepsize''"

definition SCAN_RATE :: string where
  "SCAN_RATE = ''Scanrate''"

definition CYCLE :: string where
  "CYCLE = ''Cycle''"

definition LPTIA_RTIA_SIZE :: string where
  "LPTIA_RTIA_SIZE = ''LPTIA_Resistor''"

definition FIXED_WE_POTENTIAL :: string where
  "FIXED_WE_POTENTIAL = ''FixedWEPotential''"

definition MAINS_FILTER :: string where
  "MAINS_FILTER = ''MainsFilter''"

definition SINC2_OVERSAMPLING :: string where
  "SINC2_OVERSAMPLING = ''Sinc2_Oversampling''"

definition SINC3_OVERSAMPLING :: string where
  "SINC3_OVERSAMPLING = ''Sinc3_Oversampling''"

subsection \<open>The derived quantities of \<open>setup\<close>\<close>

text \<open>Lines 133 to 141: the smaller and the larger of the two vertex values.\<close>

definition fStartPotentialLB :: "real \<Rightarrow> real \<Rightarrow> real" where
  "fStartPotentialLB v1 v2 = (if v1 > v2 then v2 else v1)"

definition fStartPotentialUB :: "real \<Rightarrow> real \<Rightarrow> real" where
  "fStartPotentialUB v1 v2 = (if v1 > v2 then v1 else v2)"

text \<open>Line 144: \<^verbatim>\<open>abs(listExperimentParameters[2][1] - listExperimentParameters[1][1])\<close>.\<close>

definition fRange :: "real \<Rightarrow> real \<Rightarrow> real" where
  "fRange v1 v2 = \<bar>v2 - v1\<bar>"

text \<open>Lines 147 to 150: the envelope, chosen by the value of the entry at index 7.\<close>

definition fVoltageRange :: "limits \<Rightarrow> real \<Rightarrow> real" where
  "fVoltageRange L v7 = (if v7 = 1 then VOLTAGE_RANGE_FWP L else VOLTAGE_RANGE L * 2)"

text \<open>Lines 153 to 173.\<close>

definition listReferenceList :: "limits \<Rightarrow> real \<Rightarrow> real \<Rightarrow> real \<Rightarrow> reference list" where
  "listReferenceList L lb ub vr =
     [ (START_POTENTIAL, lb, ub),
       (LOWER_POTENTIAL, ub - vr, lb + vr),
       (UPPER_POTENTIAL, ub - vr, lb + vr),
       (STEP_SIZE, MIN_STEP_SIZE L, MAX_STEP_SIZE L),
       (SCAN_RATE, MIN_SCAN_RATE L, MAX_SCAN_RATE L),
       (CYCLE, MIN_CYCLE L, MAX_CYCLE L),
       (LPTIA_RTIA_SIZE, LPTIARTIA_OPEN L, LPTIARTIA_512K L),
       (FIXED_WE_POTENTIAL, 0, 1),
       (MAINS_FILTER, 0, 1),
       (SINC2_OVERSAMPLING, ADCSINC2OSR_DISABLED L, ADCSINC2OSR_1333 L),
       (SINC3_OVERSAMPLING, ADCSINC3OSR_DISABLED L, ADCSINC3OSR_2 L) ]"

subsection \<open>The per-entry loop\<close>

text \<open>
  Lines 182 to 194: \<^verbatim>\<open>for iEntry in range(len(listExperimentParameters))\<close>, as a recursion
  over the list of indices. \<open>Some c\<close> is the \<^verbatim>\<open>return\<close> of the error code \<open>c\<close> from inside
  the loop, \<open>None\<close> is the loop running to its end. The loop is entered only when the
  list has \<open>CV_NUM_PARAMETER\<close> entries, as many as the reference list, so both index
  reads are in range.
\<close>

fun check_entries :: "parameter list \<Rightarrow> reference list \<Rightarrow> nat list \<Rightarrow> int option" where
  "check_entries ps refs [] = None"
| "check_entries ps refs (iEntry # rest) =
     (if fst (ps ! iEntry) \<noteq> ref_name (refs ! iEntry)
      then Some (EC_SETUP + EC_SE_PARAM_NOT_FOUND + int iEntry)
      else if snd (ps ! iEntry) < ref_lower (refs ! iEntry)
              \<or> snd (ps ! iEntry) > ref_upper (refs ! iEntry)
      then Some (EC_SETUP + EC_SE_PARAM_OUT_OF_BOUND + int iEntry)
      else check_entries ps refs rest)"

subsection \<open>The method \<open>setup\<close> of the class \<open>SetupCV\<close>\<close>

text \<open>
  \<open>setup_cv\<close> is the method \<^verbatim>\<open>SetupCV.setup\<close>. The result is \<open>Inl IndexError\<close> when an index read raises, and otherwise the returned
  error code with the collaborator calls made before the return. The reads of the
  entries 1, 2 and 7 (lines 133 to 147) come before the test of the length (line 176).
\<close>

definition setup_cv :: "limits \<Rightarrow> parameter list \<Rightarrow> error + (int \<times> call list)" where
  "setup_cv L listExperimentParameters =
     (case item listExperimentParameters 1 of
        Inl e \<Rightarrow> Inl e
      | Inr p1 \<Rightarrow>
     (case item listExperimentParameters 2 of
        Inl e \<Rightarrow> Inl e
      | Inr p2 \<Rightarrow>
     (case item listExperimentParameters 7 of
        Inl e \<Rightarrow> Inl e
      | Inr p7 \<Rightarrow>
     (let lb = fStartPotentialLB (snd p1) (snd p2);
          ub = fStartPotentialUB (snd p1) (snd p2);
          span = fRange (snd p1) (snd p2);
          vr = fVoltageRange L (snd p7);
          refs = listReferenceList L lb ub vr
      in
        if length listExperimentParameters \<noteq> CV_NUM_PARAMETER
        then Inr (EC_SETUP + EC_SE_AMOUNT_PARAMETER, [])
        else
         (case check_entries listExperimentParameters refs
                 [0 ..< length listExperimentParameters] of
            Some iErrorCode \<Rightarrow> Inr (iErrorCode, [])
          | None \<Rightarrow>
              if span \<ge> vr
              then Inr (EC_SETUP + EC_SE_SCAN_RANGE_ERROR, [])
              else Inr (EC_NO_ERROR,
                        [ save_ExperimentType CV,
                          save_ExperimentParmeters listExperimentParameters,
                          setup_ExportFiles ]))))))"

subsection \<open>The checks in the words of the specification\<close>

text \<open>
  The reference table that \<open>setup_cv\<close> builds from a list, the scan span and the envelope
  (steps 1 to 4 of the algorithm), read off the list by position. They are used for lists
  that have the entries 1, 2 and 7.
\<close>

definition scanSpan :: "parameter list \<Rightarrow> real" where
  "scanSpan ps = fRange (snd (ps ! 1)) (snd (ps ! 2))"

definition envelope :: "limits \<Rightarrow> parameter list \<Rightarrow> real" where
  "envelope L ps = fVoltageRange L (snd (ps ! 7))"

definition referenceTable :: "limits \<Rightarrow> parameter list \<Rightarrow> reference list" where
  "referenceTable L ps =
     listReferenceList L
       (fStartPotentialLB (snd (ps ! 1)) (snd (ps ! 2)))
       (fStartPotentialUB (snd (ps ! 1)) (snd (ps ! 2)))
       (envelope L ps)"

text \<open>Step 6a and step 6b at one position.\<close>

definition name_ok :: "limits \<Rightarrow> parameter list \<Rightarrow> nat \<Rightarrow> bool" where
  "name_ok L ps i \<longleftrightarrow> fst (ps ! i) = ref_name (referenceTable L ps ! i)"

definition range_ok :: "limits \<Rightarrow> parameter list \<Rightarrow> nat \<Rightarrow> bool" where
  "range_ok L ps i \<longleftrightarrow>
     ref_lower (referenceTable L ps ! i) \<le> snd (ps ! i)
     \<and> snd (ps ! i) \<le> ref_upper (referenceTable L ps ! i)"

text \<open>All per-field checks of the positions below \<open>n\<close>.\<close>

definition fields_pass :: "limits \<Rightarrow> parameter list \<Rightarrow> nat \<Rightarrow> bool" where
  "fields_pass L ps n \<longleftrightarrow> list_all (\<lambda>i. name_ok L ps i \<and> range_ok L ps i) [0 ..< n]"

text \<open>Steps 5 to 7: the arity check, every per-field check and the cross-field check.\<close>

definition all_checks_pass :: "limits \<Rightarrow> parameter list \<Rightarrow> bool" where
  "all_checks_pass L ps \<longleftrightarrow>
     length ps = 11 \<and> fields_pass L ps 11 \<and> scanSpan ps < envelope L ps"

text \<open>The three collaborator calls of step 8.\<close>

definition success_calls :: "parameter list \<Rightarrow> call list" where
  "success_calls ps = [save_ExperimentType CV, save_ExperimentParmeters ps, setup_ExportFiles]"

text \<open>The error code of a run, without the record of the collaborator calls.\<close>

definition return_code :: "error + (int \<times> call list) \<Rightarrow> error + int" where
  "return_code r = (case r of Inl e \<Rightarrow> Inl e | Inr (iErrorCode, calls) \<Rightarrow> Inr iErrorCode)"

text \<open>
  Exchanging the values of the two vertex entries; the names stay. A list without both
  entries is left as it is.
\<close>

definition swap_vertices :: "parameter list \<Rightarrow> parameter list" where
  "swap_vertices ps =
     (if length ps < 3 then ps
      else ps[1 := (fst (ps ! 1), snd (ps ! 2)), 2 := (fst (ps ! 2), snd (ps ! 1))])"

text \<open>
  Modelled from the spec: the relation between the two envelope constants of the missing
  module \<^verbatim>\<open>constants\<close>. The envelope is a voltage span, and the fixed-mode constant is
  the narrower one (the source comments the two as 2.1 V and 4.0 V).
\<close>

definition narrower_fixed_envelope :: "limits \<Rightarrow> bool" where
  "narrower_fixed_envelope L \<longleftrightarrow>
     0 < VOLTAGE_RANGE_FWP L \<and> VOLTAGE_RANGE_FWP L < VOLTAGE_RANGE L * 2"

text \<open>Every fixed bound of the table is an interval with at least one value.\<close>

definition fixed_bounds_inhabited :: "limits \<Rightarrow> bool" where
  "fixed_bounds_inhabited L \<longleftrightarrow>
     MIN_STEP_SIZE L \<le> MAX_STEP_SIZE L
     \<and> MIN_SCAN_RATE L \<le> MAX_SCAN_RATE L
     \<and> MIN_CYCLE L \<le> MAX_CYCLE L
     \<and> LPTIARTIA_OPEN L \<le> LPTIARTIA_512K L
     \<and> ADCSINC2OSR_DISABLED L \<le> ADCSINC2OSR_1333 L
     \<and> ADCSINC3OSR_DISABLED L \<le> ADCSINC3OSR_2 L"


subsection \<open>Sample inputs\<close>

text \<open>
  Modelled from the spec: one value of the numeric limits of the missing module
  \<^verbatim>\<open>constants\<close>, used only where \<open>setup_cv\<close> is evaluated at a concrete list. The spec
  leaves the numbers to the configuration; these admit the spec's success scenario, with
  the two envelopes of the source comment in mV.
\<close>

definition sample_limits :: limits where
  "sample_limits =
     \<lparr> VOLTAGE_RANGE = 2000, VOLTAGE_RANGE_FWP = 2100,
       MIN_STEP_SIZE = 1, MAX_STEP_SIZE = 100,
       MIN_SCAN_RATE = 1, MAX_SCAN_RATE = 1000,
       MIN_CYCLE = 1, MAX_CYCLE = 100,
       LPTIARTIA_OPEN = 0, LPTIARTIA_512K = 26,
       ADCSINC2OSR_DISABLED = 0, ADCSINC2OSR_1333 = 1333,
       ADCSINC3OSR_DISABLED = 0, ADCSINC3OSR_2 = 2 \<rparr>"

text \<open>The values of the spec's success scenario, in the order of the reference list.\<close>

definition sample_parameters :: "parameter list" where
  "sample_parameters =
     [ (''StartVoltage'', 0), (''FirstVertex'', 500), (''SecondVertex'', - 500),
       (''Stepsize'', 2), (''Scanrate'', 50), (''Cycle'', 2),
       (''LPTIA_Resistor'', 5), (''FixedWEPotential'', 0), (''MainsFilter'', 0),
       (''Sinc2_Oversampling'', 667), (''Sinc3_Oversampling'', 0) ]"

text \<open>The same values in the order in which the spec lists the names.\<close>

definition spec_order_parameters :: "parameter list" where
  "spec_order_parameters =
     [ (''StartVoltage'', 0), (''FirstVertex'', 500), (''SecondVertex'', - 500),
       (''Stepsize'', 2), (''Scanrate'', 50), (''Cycle'', 2),
       (''FixedWEPotential'', 0), (''LPTIA_Resistor'', 5), (''MainsFilter'', 0),
       (''Sinc2_Oversampling'', 667), (''Sinc3_Oversampling'', 0) ]"

text \<open>The first seven entries of the sample list.\<close>

definition seven_parameters :: "parameter list" where
  "seven_parameters = take 7 sample_parameters"

text \<open>
  A list whose first violation is the name at position 3, with a value out of bounds at
  the same position and wrong names and values after it.
\<close>

definition poisoned_parameters :: "parameter list" where
  "poisoned_parameters =
     [ (''StartVoltage'', 0), (''FirstVertex'', 500), (''SecondVertex'', - 500),
       (''Scanrate'', 5000), (''Stepsize'', - 1), (''Cycle'', 0),
       (''Resistor'', 99), (''FixedWEPotential'', 0), (''MainsFilter'', 7),
       (''Sinc2_Oversampling'', - 3), (''Sinc3'', 9) ]"

text \<open>The sample list with a twelfth entry.\<close>

definition twelve_parameters :: "parameter list" where
  "twelve_parameters = sample_parameters @ [(''Extra'', 0)]"




text \<open>
  A list that is valid in every fixed field (each at its lower bound), with the start
  voltage on the first vertex, the two vertex values and the flag left open.
\<close>

definition envelope_probe :: "limits \<Rightarrow> real \<Rightarrow> real \<Rightarrow> real \<Rightarrow> parameter list" where
  "envelope_probe L v1 v2 flag =
     [ (START_POTENTIAL, v1), (LOWER_POTENTIAL, v1), (UPPER_POTENTIAL, v2),
       (STEP_SIZE, MIN_STEP_SIZE L), (SCAN_RATE, MIN_SCAN_RATE L), (CYCLE, MIN_CYCLE L),
       (LPTIA_RTIA_SIZE, LPTIARTIA_OPEN L), (FIXED_WE_POTENTIAL, flag), (MAINS_FILTER, 0),
       (SINC2_OVERSAMPLING, ADCSINC2OSR_DISABLED L),
       (SINC3_OVERSAMPLING, ADCSINC3OSR_DISABLED L) ]"

subsection \<open>The arithmetic of Python floats\<close>

text \<open>
  Python evaluates the subtraction of line 144, the product of line 150 and the
  subtraction and addition of lines 157 to 163 on floats: each result is the real result
  rounded to the nearest binary64 number, ties to even. \<open>round_double\<close> is that rounding
  of a real number, with the gradual underflow of the format; a result beyond the
  largest finite number is outside the model. The entries of a list are taken to be
  binary64 numbers already.
\<close>

text \<open>The number of binary digits of a positive integer (\<^verbatim>\<open>int.bit_length\<close>).\<close>

function bit_length :: "int \<Rightarrow> int" where
  "bit_length k = (if k \<le> 0 then 0 else 1 + bit_length (k div 2))"
  by pat_completeness auto
termination
  by (relation "measure nat") auto

text \<open>The power of two with an integer exponent.\<close>

definition pow2 :: "int \<Rightarrow> real" where
  "pow2 k = (if 0 \<le> k then 2 ^ nat k else 1 / 2 ^ nat (- k))"

text \<open>The exponent \<open>e\<close> with \<open>2\<^sup>e \<le> \<bar>x\<bar> < 2\<^sup>e\<^sup>+\<^sup>1\<close>, for \<open>x\<close> other than 0.\<close>

definition binary_exponent :: "real \<Rightarrow> int" where
  "binary_exponent x =
     (if 1 \<le> \<bar>x\<bar> then bit_length \<lfloor>\<bar>x\<bar>\<rfloor> - 1
      else - bit_length (\<lceil>1 / \<bar>x\<bar>\<rceil> - 1))"

text \<open>Rounding to the nearest integer, a tie going to the even one.\<close>

definition round_half_even :: "real \<Rightarrow> int" where
  "round_half_even y =
     (let f = \<lfloor>y\<rfloor>; d = y - of_int f
      in if d < 1 / 2 then f
         else if 1 / 2 < d then f + 1
         else if even f then f else f + 1)"

text \<open>
  Rounding to 53 significant binary digits; below \<open>2\<^sup>-\<^sup>1\<^sup>0\<^sup>2\<^sup>2\<close> the spacing stays that of the
  smallest normal numbers.
\<close>

definition round_double :: "real \<Rightarrow> real" where
  "round_double x =
     (if x = 0 then 0
      else let ulp = pow2 (max (binary_exponent x) (- 1022) - 52)
           in of_int (round_half_even (x / ulp)) * ulp)"

text \<open>
  The derived quantities, the reference list and the method once more, with every
  arithmetic result rounded as Python rounds it. The comparisons, the loop
  \<open>check_entries\<close> and the selection of the smaller and larger vertex are exact in
  Python and are those of the model above.
\<close>

definition fRange_double :: "real \<Rightarrow> real \<Rightarrow> real" where
  "fRange_double v1 v2 = \<bar>round_double (v2 - v1)\<bar>"

definition fVoltageRange_double :: "limits \<Rightarrow> real \<Rightarrow> real" where
  "fVoltageRange_double L v7 =
     (if v7 = 1 then VOLTAGE_RANGE_FWP L else round_double (VOLTAGE_RANGE L * 2))"

definition listReferenceList_double :: "limits \<Rightarrow> real \<Rightarrow> real \<Rightarrow> real \<Rightarrow> reference list" where
  "listReferenceList_double L lb ub vr =
     [ (START_POTENTIAL, lb, ub),
       (LOWER_POTENTIAL, round_double (ub - vr), round_double (lb + vr)),
       (UPPER_POTENTIAL, round_double (ub - vr), round_double (lb + vr)),
       (STEP_SIZE, MIN_STEP_SIZE L, MAX_STEP_SIZE L),
       (SCAN_RATE, MIN_SCAN_RATE L, MAX_SCAN_RATE L),
       (CYCLE, MIN_CYCLE L, MAX_CYCLE L),
       (LPTIA_RTIA_SIZE, LPTIARTIA_OPEN L, LPTIARTIA_512K L),
       (FIXED_WE_POTENTIAL, 0, 1),
       (MAINS_FILTER, 0, 1),
       (SINC2_OVERSAMPLING, ADCSINC2OSR_DISABLED L, ADCSINC2OSR_1333 L),
       (SINC3_OVERSAMPLING, ADCSINC3OSR_DISABLED L, ADCSINC3OSR_2 L) ]"

definition setup_cv_double :: "limits \<Rightarrow> parameter list \<Rightarrow> error + (int \<times> call list)" where
  "setup_cv_double L listExperimentParameters =
     (case item listExperimentParameters 1 of
        Inl e \<Rightarrow> Inl e
      | Inr p1 \<Rightarrow>
     (case item listExperimentParameters 2 of
        Inl e \<Rightarrow> Inl e
      | Inr p2 \<Rightarrow>
     (case item listExperimentParameters 7 of
        Inl e \<Rightarrow> Inl e
      | Inr p7 \<Rightarrow>
     (let lb = fStartPotentialLB (snd p1) (snd p2);
          ub = fStartPotentialUB (snd p1) (snd p2);
          span = fRange_double (snd p1) (snd p2);
          vr = fVoltageRange_double L (snd p7);
          refs = listReferenceList_double L lb ub vr
      in
        if length listExperimentParameters \<noteq> CV_NUM_PARAMETER
        then Inr (EC_SETUP + EC_SE_AMOUNT_PARAMETER, [])
        else
         (case check_entries listExperimentParameters refs
                 [0 ..< length listExperimentParameters] of
            Some iErrorCode \<Rightarrow> Inr (iErrorCode, [])
          | None \<Rightarrow>
              if span \<ge> vr
              then Inr (EC_SETUP + EC_SE_SCAN_RANGE_ERROR, [])
              else Inr (EC_NO_ERROR,
                        [ save_ExperimentType CV,
                          save_ExperimentParmeters listExperimentParameters,
                          setup_ExportFiles ]))))))"

text \<open>The scan span, the envelope, the table and the range check of a list, on floats.\<close>

definition scanSpan_double :: "parameter list \<Rightarrow> real" where
  "scanSpan_double ps = fRange_double (snd (ps ! 1)) (snd (ps ! 2))"

definition envelope_double :: "limits \<Rightarrow> parameter list \<Rightarrow> real" where
  "envelope_double L ps = fVoltageRange_double L (snd (ps ! 7))"

definition referenceTable_double :: "limits \<Rightarrow> parameter list \<Rightarrow> reference list" where
  "referenceTable_double L ps =
     listReferenceList_double L
       (fStartPotentialLB (snd (ps ! 1)) (snd (ps ! 2)))
       (fStartPotentialUB (snd (ps ! 1)) (snd (ps ! 2)))
       (envelope_double L ps)"

definition range_ok_double :: "limits \<Rightarrow> parameter list \<Rightarrow> nat \<Rightarrow> bool" where
  "range_ok_double L ps i \<longleftrightarrow>
     ref_lower (referenceTable_double L ps ! i) \<le> snd (ps ! i)
     \<and> snd (ps ! i) \<le> ref_upper (referenceTable_double L ps ! i)"

text \<open>
  The sample list with the vertices 0.3 and 4000.3 as Python reads these literals, and
  the start voltage 1 between them.
\<close>

definition double_parameters :: "parameter list" where
  "double_parameters =
     [ (''StartVoltage'', 1), (''FirstVertex'', round_double (3 / 10)),
       (''SecondVertex'', round_double (40003 / 10)),
       (''Stepsize'', 2), (''Scanrate'', 50), (''Cycle'', 2),
       (''LPTIA_Resistor'', 5), (''FixedWEPotential'', 0), (''MainsFilter'', 0),
       (''Sinc2_Oversampling'', 667), (''Sinc3_Oversampling'', 0) ]"

section \<open>Properties of \<open>setup_cv\<close>\<close>

subsection \<open>The structure of a run\<close>

text \<open>The three index reads come first: a list without the entry 7 raises.\<close>

lemma setup_cv_raises: "length ps < 8 \<Longrightarrow> setup_cv L ps = Inl IndexError"
  by (simp add: setup_cv_def item_def)

lemma setup_cv_wrong_length:
  "8 \<le> length ps \<Longrightarrow> length ps \<noteq> 11 \<Longrightarrow>
   setup_cv L ps = Inr (EC_SETUP + EC_SE_AMOUNT_PARAMETER, [])"
  by (simp add: setup_cv_def item_def CV_NUM_PARAMETER_def Let_def)

text \<open>A list of eleven entries reaches the loop, run on the table built from it.\<close>

lemma setup_cv_eleven:
  "length ps = 11 \<Longrightarrow>
   setup_cv L ps =
     (case check_entries ps (referenceTable L ps) [0 ..< 11] of
        Some c \<Rightarrow> Inr (c, [])
      | None \<Rightarrow>
          if envelope L ps \<le> scanSpan ps
          then Inr (EC_SETUP + EC_SE_SCAN_RANGE_ERROR, [])
          else Inr (EC_NO_ERROR, success_calls ps))"
  by (simp add: setup_cv_def item_def CV_NUM_PARAMETER_def Let_def referenceTable_def
      envelope_def scanSpan_def success_calls_def split: option.split)

text \<open>The loop: positions that pass are stepped over, the first violation returns.\<close>

lemma check_entries_skip:
  "list_all (\<lambda>j. name_ok L ps j \<and> range_ok L ps j) xs \<Longrightarrow>
   check_entries ps (referenceTable L ps) (xs @ ys) = check_entries ps (referenceTable L ps) ys"
  by (induction xs) (auto simp: name_ok_def range_ok_def)

lemma check_entries_None_iff:
  "check_entries ps (referenceTable L ps) xs = None
   \<longleftrightarrow> list_all (\<lambda>j. name_ok L ps j \<and> range_ok L ps j) xs"
  by (induction xs) (auto simp: name_ok_def range_ok_def)

lemma check_entries_name_stop:
  "\<not> name_ok L ps i \<Longrightarrow>
   check_entries ps (referenceTable L ps) (i # ys) = Some (EC_SETUP + EC_SE_PARAM_NOT_FOUND + int i)"
  by (simp add: name_ok_def)


lemma check_entries_Some:
  "check_entries ps refs xs = Some c \<Longrightarrow>
   \<exists>i\<in>set xs. c = EC_SETUP + EC_SE_PARAM_NOT_FOUND + int i
              \<or> c = EC_SETUP + EC_SE_PARAM_OUT_OF_BOUND + int i"
  by (induction xs) (auto split: if_splits)

lemma upt_split_at: "i < n \<Longrightarrow> [0 ..< n] = [0 ..< i] @ i # [Suc i ..< n]"
  using upt_add_eq_append [of 0 i "n - i"] by (simp add: upt_conv_Cons)

lemma check_entries_first_violation:
  assumes "i < n" "fields_pass L ps i"
  shows "check_entries ps (referenceTable L ps) [0 ..< n]
         = check_entries ps (referenceTable L ps) (i # [Suc i ..< n])"
proof -
  have "list_all (\<lambda>j. name_ok L ps j \<and> range_ok L ps j) [0 ..< i]"
    using assms(2) by (simp only: fields_pass_def)
  then have "check_entries ps (referenceTable L ps) ([0 ..< i] @ i # [Suc i ..< n])
             = check_entries ps (referenceTable L ps) (i # [Suc i ..< n])"
    by (rule check_entries_skip)
  then show ?thesis
    using assms(1) by (simp only: upt_split_at [of i n])
qed

lemma setup_cv_first_name_violation:
  assumes "length ps = 11" "i < 11" "fields_pass L ps i" "\<not> name_ok L ps i"
  shows "setup_cv L ps = Inr (EC_SETUP + EC_SE_PARAM_NOT_FOUND + int i, [])"
proof -
  have "check_entries ps (referenceTable L ps) [0 ..< 11]
        = Some (EC_SETUP + EC_SE_PARAM_NOT_FOUND + int i)"
    using check_entries_first_violation [OF assms(2,3)] check_entries_name_stop [OF assms(4)]
    by (rule trans)
  then show ?thesis
    using assms(1) by (simp only: setup_cv_eleven option.case)
qed


lemma setup_cv_fields_pass:
  assumes "length ps = 11" "fields_pass L ps 11"
  shows "setup_cv L ps =
     (if envelope L ps \<le> scanSpan ps
      then Inr (EC_SETUP + EC_SE_SCAN_RANGE_ERROR, [])
      else Inr (EC_NO_ERROR, success_calls ps))"
proof -
  have "check_entries ps (referenceTable L ps) [0 ..< 11] = None"
    using assms(2) by (simp only: check_entries_None_iff fields_pass_def)
  then show ?thesis
    using assms(1) by (simp only: setup_cv_eleven option.case)
qed

text \<open>Every run of \<open>setup_cv\<close> takes one of five ways out.\<close>

lemmas ec_defs = EC_NO_ERROR_def EC_SETUP_def EC_SE_AMOUNT_PARAMETER_def
  EC_SE_SCAN_RANGE_ERROR_def EC_SE_PARAM_NOT_FOUND_def EC_SE_PARAM_OUT_OF_BOUND_def

lemmas name_defs = START_POTENTIAL_def LOWER_POTENTIAL_def UPPER_POTENTIAL_def STEP_SIZE_def
  SCAN_RATE_def CYCLE_def LPTIA_RTIA_SIZE_def FIXED_WE_POTENTIAL_def MAINS_FILTER_def
  SINC2_OVERSAMPLING_def SINC3_OVERSAMPLING_def


lemma setup_cv_outcomes:
  "(length ps < 8 \<and> setup_cv L ps = Inl IndexError)
   \<or> (8 \<le> length ps \<and> length ps \<noteq> 11 \<and> setup_cv L ps = Inr (EC_SETUP + EC_SE_AMOUNT_PARAMETER, []))
   \<or> (length ps = 11 \<and> \<not> fields_pass L ps 11
       \<and> (\<exists>i<11. setup_cv L ps = Inr (EC_SETUP + EC_SE_PARAM_NOT_FOUND + int i, [])
                 \<or> setup_cv L ps = Inr (EC_SETUP + EC_SE_PARAM_OUT_OF_BOUND + int i, [])))
   \<or> (length ps = 11 \<and> fields_pass L ps 11 \<and> envelope L ps \<le> scanSpan ps
       \<and> setup_cv L ps = Inr (EC_SETUP + EC_SE_SCAN_RANGE_ERROR, []))
   \<or> (all_checks_pass L ps \<and> setup_cv L ps = Inr (EC_NO_ERROR, success_calls ps))"
proof -
  consider "length ps < 8" | "8 \<le> length ps" "length ps \<noteq> 11" | "length ps = 11"
    by linarith
  then show ?thesis
  proof cases
    case 1
    then show ?thesis by (simp add: setup_cv_raises)
  next
    case 2
    then show ?thesis by (simp add: setup_cv_wrong_length)
  next
    case 3
    show ?thesis
    proof (cases "check_entries ps (referenceTable L ps) [0 ..< 11]")
      case None
      then have fp: "fields_pass L ps 11"
        by (simp only: check_entries_None_iff fields_pass_def)
      show ?thesis
        using 3 fp setup_cv_fields_pass [OF 3 fp]
        by (simp add: all_checks_pass_def)
    next
      case (Some c)
      then have nfp: "\<not> fields_pass L ps 11"
        using check_entries_None_iff [of ps L "[0 ..< 11]"] by (simp add: fields_pass_def)
      from Some obtain i where "i < 11"
        "c = EC_SETUP + EC_SE_PARAM_NOT_FOUND + int i
         \<or> c = EC_SETUP + EC_SE_PARAM_OUT_OF_BOUND + int i"
        using check_entries_Some [of ps "referenceTable L ps" "[0 ..< 11]" c] by auto
      moreover have "setup_cv L ps = Inr (c, [])"
        using 3 Some by (simp only: setup_cv_eleven option.case)
      ultimately show ?thesis using 3 nfp by auto
    qed
  qed
qed

subsection \<open>The arity check\<close>

text \<open>
  Claim C1: for every list whose length differs from 11, \<open>setup\<close> returns the arity error
  and calls no collaborator, lists with fewer than 8 entries included. The code does
  not do this for a short list: on the empty list and on a list of seven well-formed
  entries the read of an entry before the test of the length raises \<open>IndexError\<close>, and
  no error code is returned.
\<close>

theorem short_list_raises_IndexError:
  "setup_cv L [] = Inl IndexError \<and> setup_cv L seven_parameters = Inl IndexError"
  by (simp add: setup_cv_raises seven_parameters_def sample_parameters_def)

subsection \<open>The expected names\<close>

text \<open>
  Claim C2, as stated: the name check at position 6 compares against the identifier
  \<open>FixedWEPotential\<close>, and the check at position 7 against \<open>LPTIA_Resistor\<close>. It fails on
  the list that carries the names in that order, with every value valid: the entry at
  position 6 is named \<open>FixedWEPotential\<close> and \<open>setup\<close> returns the naming error of
  position 6.
\<close>

theorem spec_order_rejected_at_6:
  "fst (spec_order_parameters ! 6) = ''FixedWEPotential''
   \<and> ref_name (referenceTable sample_limits spec_order_parameters ! 6) = ''LPTIA_Resistor''
   \<and> setup_cv sample_limits spec_order_parameters = Inr (11106, [])"
  by code_simp

text \<open>
  Claim C2, amended: the expected names are, in order, StartVoltage, FirstVertex,
  SecondVertex, Stepsize, Scanrate, Cycle, LPTIA_Resistor, FixedWEPotential, MainsFilter,
  Sinc2_Oversampling, Sinc3_Oversampling: for every list the name check at position 6
  compares against \<open>LPTIA_Resistor\<close> and the one at position 7 against
  \<open>FixedWEPotential\<close>.
\<close>

theorem reference_names_in_order:
  "map ref_name (listReferenceList L lb ub vr) =
     [''StartVoltage'', ''FirstVertex'', ''SecondVertex'', ''Stepsize'', ''Scanrate'',
      ''Cycle'', ''LPTIA_Resistor'', ''FixedWEPotential'', ''MainsFilter'',
      ''Sinc2_Oversampling'', ''Sinc3_Oversampling'']
   \<and> (check_entries ps (listReferenceList L lb ub vr) [6]
          = Some (EC_SETUP + EC_SE_PARAM_NOT_FOUND + 6)
        \<longleftrightarrow> fst (ps ! 6) \<noteq> ''LPTIA_Resistor'')
   \<and> (check_entries ps (listReferenceList L lb ub vr) [7]
          = Some (EC_SETUP + EC_SE_PARAM_NOT_FOUND + 7)
        \<longleftrightarrow> fst (ps ! 7) \<noteq> ''FixedWEPotential'')"
  by (simp add: listReferenceList_def ref_name_def name_defs ec_defs)

subsection \<open>Success and the collaborator calls\<close>



subsection \<open>The derived bounds\<close>


subsection \<open>The order of the per-field checks\<close>

text \<open>
  Claim C9: the per-field checks run in ascending order of position, the name check
  before the range check, and stop at the first violation: when the positions below
  \<open>i\<close> pass and the name at position \<open>i\<close> is wrong, \<open>setup\<close> returns the naming error
  base + 100 + i, whatever the value at position \<open>i\<close> and whatever the entries after it
  (nothing is assumed of them).
\<close>

theorem first_name_mismatch_wins:
  "length ps = 11 \<Longrightarrow> i < 11 \<Longrightarrow> fields_pass L ps i \<Longrightarrow> \<not> name_ok L ps i \<Longrightarrow>
   setup_cv L ps = Inr (EC_SETUP + EC_SE_PARAM_NOT_FOUND + int i, [])"
  by (rule setup_cv_first_name_violation)

theorem first_name_mismatch_wins_witness:
  "length poisoned_parameters = 11 \<and> fields_pass sample_limits poisoned_parameters 3
   \<and> \<not> name_ok sample_limits poisoned_parameters 3
   \<and> \<not> range_ok sample_limits poisoned_parameters 3
   \<and> setup_cv sample_limits poisoned_parameters = Inr (11103, [])"
proof -
  have a: "length poisoned_parameters = 11" by code_simp
  have b: "fields_pass sample_limits poisoned_parameters 3" by code_simp
  have c: "\<not> name_ok sample_limits poisoned_parameters 3" by code_simp
  have d: "\<not> range_ok sample_limits poisoned_parameters 3" by code_simp
  have "setup_cv sample_limits poisoned_parameters = Inr (11103, [])"
    using first_name_mismatch_wins [OF a _ b c] by (simp add: ec_defs)
  with a b c d show ?thesis by simp
qed

subsection \<open>The codes returned\<close>

text \<open>
  Claim C10: whenever \<open>setup\<close> returns, the code is 0, base + 1, base + 2, base + 100 + i
  or base + 200 + i with i from 0 to 10; base + 3 and base + 4 are never returned, and a
  list of more than 11 entries gets the arity code base + 1.
\<close>

theorem return_codes:
  "(\<forall>c calls. setup_cv L ps = Inr (c, calls) \<longrightarrow>
       c = 0 \<or> c = EC_SETUP + 1 \<or> c = EC_SETUP + 2
       \<or> (\<exists>i<11. c = EC_SETUP + 100 + int i \<or> c = EC_SETUP + 200 + int i))
   \<and> (\<forall>calls. setup_cv L ps \<noteq> Inr (EC_SETUP + 3, calls)
              \<and> setup_cv L ps \<noteq> Inr (EC_SETUP + 4, calls))
   \<and> (11 < length ps \<longrightarrow> setup_cv L ps = Inr (EC_SETUP + EC_SE_AMOUNT_PARAMETER, []))"
proof -
  have "\<forall>c calls. setup_cv L ps = Inr (c, calls) \<longrightarrow>
       c = 0 \<or> c = EC_SETUP + 1 \<or> c = EC_SETUP + 2
       \<or> (\<exists>i<11. c = EC_SETUP + 100 + int i \<or> c = EC_SETUP + 200 + int i)"
    using setup_cv_outcomes [where L = L and ps = ps]
    by (auto simp: EC_NO_ERROR_def EC_SE_AMOUNT_PARAMETER_def EC_SE_SCAN_RANGE_ERROR_def
        EC_SE_PARAM_NOT_FOUND_def EC_SE_PARAM_OUT_OF_BOUND_def)
  moreover have "\<forall>calls. setup_cv L ps \<noteq> Inr (EC_SETUP + 3, calls)
              \<and> setup_cv L ps \<noteq> Inr (EC_SETUP + 4, calls)"
    using setup_cv_outcomes [where L = L and ps = ps] by (auto simp: ec_defs)
  moreover have "11 < length ps \<longrightarrow> setup_cv L ps = Inr (EC_SETUP + EC_SE_AMOUNT_PARAMETER, [])"
    by (simp add: setup_cv_wrong_length)
  ultimately show ?thesis by blast
qed

theorem return_codes_witness:
  "11 < length twelve_parameters
   \<and> setup_cv sample_limits twelve_parameters = Inr (11001, [])
   \<and> setup_cv sample_limits sample_parameters = Inr (0, success_calls sample_parameters)"
proof -
  have a: "11 < length twelve_parameters" by code_simp
  have b: "setup_cv sample_limits sample_parameters = Inr (0, success_calls sample_parameters)"
    by code_simp
  have "setup_cv sample_limits twelve_parameters = Inr (11001, [])"
    using return_codes [of sample_limits twelve_parameters] a by (simp add: ec_defs)
  with a b show ?thesis by simp
qed

subsection \<open>The scan-range check\<close>



subsection \<open>The range check of one position\<close>


lemma fields_pass_position:
  "fields_pass L ps n \<Longrightarrow> j < n \<Longrightarrow> name_ok L ps j \<and> range_ok L ps j"
  by (simp add: fields_pass_def list_all_iff)

text \<open>
  When every per-field check passes the scan span is at most the envelope, since both
  vertex values lie in their bound: the cross-field check can only fire at equality.
\<close>

lemma fields_pass_span_le_envelope:
  assumes "fields_pass L ps 11"
  shows "scanSpan ps \<le> envelope L ps"
proof -
  have "range_ok L ps 1" "range_ok L ps 2"
    using fields_pass_position [OF assms, of 1] fields_pass_position [OF assms, of 2]
    by simp_all
  then show ?thesis
    by (auto simp: range_ok_def referenceTable_def listReferenceList_def ref_lower_def
        ref_upper_def scanSpan_def fRange_def fStartPotentialLB_def fStartPotentialUB_def
        split: if_splits)
qed







subsection \<open>The selection of the envelope\<close>

lemma upt_eleven: "[0 ..< 11] = [0, 1, 2, 3, 4, 5, 6, 7, 8, 9, 10]"
  by code_simp

lemma envelope_probe_fields_pass:
  assumes "fixed_bounds_inhabited L" "flag = 0 \<or> flag = 1" "0 \<le> v"
    "v \<le> fVoltageRange L flag"
  shows "fields_pass L (envelope_probe L 0 v flag) 11"
  using assms
  by (auto simp: fields_pass_def upt_eleven name_ok_def range_ok_def referenceTable_def
      listReferenceList_def envelope_probe_def ref_name_def ref_lower_def ref_upper_def
      envelope_def fStartPotentialLB_def fStartPotentialUB_def fixed_bounds_inhabited_def)

lemma envelope_probe_span:
  "0 \<le> v \<Longrightarrow> scanSpan (envelope_probe L 0 v flag) = v"
  "envelope L (envelope_probe L v1 v2 flag) = fVoltageRange L flag"
  "length (envelope_probe L v1 v2 flag) = 11"
  by (simp_all add: scanSpan_def envelope_def envelope_probe_def fRange_def)

text \<open>
  Claim C7: the envelope is the fixed-mode constant \<open>VOLTAGE_RANGE_FWP\<close> when the value of
  the FixedWEPotential entry (the entry at index 7) equals 1, and \<open>VOLTAGE_RANGE * 2\<close>
  otherwise. The fixed-mode envelope being the strictly smaller one, there is a pair
  of vertex values that passes with the flag at 0 and fails with the flag at 1, every
  other entry the same and valid.
\<close>

theorem envelope_selection:
  "envelope L ps = (if snd (ps ! 7) = 1 then VOLTAGE_RANGE_FWP L else VOLTAGE_RANGE L * 2)
   \<and> (narrower_fixed_envelope L \<and> fixed_bounds_inhabited L \<longrightarrow>
        (\<exists>v1 v2.
           setup_cv L (envelope_probe L v1 v2 0)
             = Inr (0, success_calls (envelope_probe L v1 v2 0))
           \<and> setup_cv L (envelope_probe L v1 v2 1)
             = Inr (EC_SETUP + EC_SE_SCAN_RANGE_ERROR, [])))"
proof -
  have sel: "envelope L ps
             = (if snd (ps ! 7) = 1 then VOLTAGE_RANGE_FWP L else VOLTAGE_RANGE L * 2)"
    by (simp add: envelope_def fVoltageRange_def)
  have ex: "\<exists>v1 v2.
           setup_cv L (envelope_probe L v1 v2 0)
             = Inr (0, success_calls (envelope_probe L v1 v2 0))
           \<and> setup_cv L (envelope_probe L v1 v2 1)
             = Inr (EC_SETUP + EC_SE_SCAN_RANGE_ERROR, [])"
    if n: "narrower_fixed_envelope L" and f: "fixed_bounds_inhabited L"
  proof -
    define v where "v = VOLTAGE_RANGE_FWP L"
    have v0: "0 \<le> v" and v1: "v < fVoltageRange L 0" and v2: "v = fVoltageRange L 1"
      using n by (simp_all add: v_def narrower_fixed_envelope_def fVoltageRange_def)
    have p0: "fields_pass L (envelope_probe L 0 v 0) 11"
      using f v0 v1 by (intro envelope_probe_fields_pass) simp_all
    have p1: "fields_pass L (envelope_probe L 0 v 1) 11"
      using f v0 v2 by (intro envelope_probe_fields_pass) simp_all
    have e0: "\<not> envelope L (envelope_probe L 0 v 0) \<le> scanSpan (envelope_probe L 0 v 0)"
      using v0 v1 by (simp add: envelope_probe_span)
    have e1: "envelope L (envelope_probe L 0 v 1) \<le> scanSpan (envelope_probe L 0 v 1)"
      using v0 v2 by (simp add: envelope_probe_span)
    have "setup_cv L (envelope_probe L 0 v 0)
            = Inr (0, success_calls (envelope_probe L 0 v 0))"
      using setup_cv_fields_pass [OF envelope_probe_span(3) p0] e0
      by (simp add: EC_NO_ERROR_def)
    moreover have "setup_cv L (envelope_probe L 0 v 1)
            = Inr (EC_SETUP + EC_SE_SCAN_RANGE_ERROR, [])"
      using setup_cv_fields_pass [OF envelope_probe_span(3) p1] e1 by simp
    ultimately show ?thesis by blast
  qed
  from sel ex show ?thesis by blast
qed

theorem envelope_selection_witness:
  "narrower_fixed_envelope sample_limits \<and> fixed_bounds_inhabited sample_limits
   \<and> (\<exists>v1 v2.
        setup_cv sample_limits (envelope_probe sample_limits v1 v2 0)
          = Inr (0, success_calls (envelope_probe sample_limits v1 v2 0))
        \<and> setup_cv sample_limits (envelope_probe sample_limits v1 v2 1) = Inr (11002, []))"
proof -
  have a: "narrower_fixed_envelope sample_limits" by code_simp
  have b: "fixed_bounds_inhabited sample_limits" by code_simp
  show ?thesis
    using envelope_selection [of sample_limits "[]"] a b by (simp add: ec_defs)
qed

subsection \<open>Exchanging the two vertex values\<close>

lemma length_swap_vertices: "length (swap_vertices ps) = length ps"
  by (simp add: swap_vertices_def)

lemma nth_swap_vertices:
  "3 \<le> length ps \<Longrightarrow> swap_vertices ps ! Suc 0 = (fst (ps ! Suc 0), snd (ps ! 2))"
  "3 \<le> length ps \<Longrightarrow> swap_vertices ps ! 2 = (fst (ps ! 2), snd (ps ! Suc 0))"
  "j \<noteq> Suc 0 \<Longrightarrow> j \<noteq> 2 \<Longrightarrow> swap_vertices ps ! j = ps ! j"
  by (simp_all add: swap_vertices_def)

lemma fst_nth_swap_vertices: "fst (swap_vertices ps ! j) = fst (ps ! j)"
proof (cases "3 \<le> length ps")
  case True
  then show ?thesis
    by (cases "j = Suc 0"; cases "j = 2") (simp_all add: nth_swap_vertices)
next
  case False
  then show ?thesis by (simp add: swap_vertices_def)
qed

lemma envelope_swap_vertices: "envelope L (swap_vertices ps) = envelope L ps"
  by (simp add: envelope_def nth_swap_vertices(3))

lemma scanSpan_swap_vertices: "scanSpan (swap_vertices ps) = scanSpan ps"
proof (cases "3 \<le> length ps")
  case True
  then show ?thesis
    by (simp add: scanSpan_def fRange_def nth_swap_vertices)
next
  case False
  then show ?thesis by (simp add: swap_vertices_def)
qed

lemma referenceTable_swap_vertices: "referenceTable L (swap_vertices ps) = referenceTable L ps"
proof (cases "3 \<le> length ps")
  case True
  then show ?thesis
    by (simp add: referenceTable_def envelope_swap_vertices nth_swap_vertices
        fStartPotentialLB_def fStartPotentialUB_def)
next
  case False
  then show ?thesis by (simp add: swap_vertices_def)
qed

lemma name_ok_swap_vertices: "name_ok L (swap_vertices ps) j = name_ok L ps j"
  by (simp add: name_ok_def referenceTable_swap_vertices fst_nth_swap_vertices)

lemma range_ok_vertices: "range_ok L ps (Suc 0) = range_ok L ps 2"
  by (auto simp: range_ok_def referenceTable_def listReferenceList_def ref_lower_def
      ref_upper_def fStartPotentialLB_def fStartPotentialUB_def split: if_splits)

lemma vertex_bounds_same:
  "ref_lower (referenceTable L ps ! Suc 0) = ref_lower (referenceTable L ps ! 2)"
  "ref_upper (referenceTable L ps ! Suc 0) = ref_upper (referenceTable L ps ! 2)"
  by (simp_all add: referenceTable_def listReferenceList_def ref_lower_def ref_upper_def)

lemma range_ok_swap_vertices: "range_ok L (swap_vertices ps) j = range_ok L ps j"
proof (cases "3 \<le> length ps")
  case False
  then show ?thesis by (simp add: swap_vertices_def)
next
  case True
  consider "j = Suc 0" | "j = 2" | "j \<noteq> Suc 0" "j \<noteq> 2" by blast
  then show ?thesis
  proof cases
    case 1
    have "range_ok L (swap_vertices ps) (Suc 0) = range_ok L ps 2"
      using True by (simp add: range_ok_def referenceTable_swap_vertices nth_swap_vertices
          vertex_bounds_same)
    with 1 show ?thesis by (simp add: range_ok_vertices)
  next
    case 2
    have "range_ok L (swap_vertices ps) 2 = range_ok L ps (Suc 0)"
      using True by (simp add: range_ok_def referenceTable_swap_vertices nth_swap_vertices
          vertex_bounds_same)
    with 2 show ?thesis by (simp add: range_ok_vertices)
  next
    case 3
    then show ?thesis
      by (simp add: range_ok_def referenceTable_swap_vertices nth_swap_vertices)
  qed
qed

lemma check_entries_step:
  "check_entries ps (referenceTable L ps) (i # rest) =
     (if \<not> name_ok L ps i then Some (EC_SETUP + EC_SE_PARAM_NOT_FOUND + int i)
      else if \<not> range_ok L ps i then Some (EC_SETUP + EC_SE_PARAM_OUT_OF_BOUND + int i)
      else check_entries ps (referenceTable L ps) rest)"
  by (auto simp: name_ok_def range_ok_def)

lemma check_entries_swap_vertices:
  "check_entries (swap_vertices ps) (referenceTable L (swap_vertices ps)) xs
   = check_entries ps (referenceTable L ps) xs"
proof (induction xs)
  case Nil
  show ?case by simp
next
  case (Cons i rest)
  then show ?case
    by (simp only: check_entries_step name_ok_swap_vertices range_ok_swap_vertices)
qed

text \<open>
  In exact arithmetic both vertex values are tested against the same interval and one is
  inside exactly when the other is, so exchanging them changes nothing in the outcome.
\<close>

lemma vertex_symmetry_exact:
  "referenceTable L (swap_vertices ps) = referenceTable L ps
   \<and> scanSpan (swap_vertices ps) = scanSpan ps
   \<and> return_code (setup_cv L (swap_vertices ps)) = return_code (setup_cv L ps)"
proof -
  have "return_code (setup_cv L (swap_vertices ps)) = return_code (setup_cv L ps)"
  proof -
    consider "length ps < 8" | "8 \<le> length ps" "length ps \<noteq> 11" | "length ps = 11"
      by linarith
    then show ?thesis
    proof cases
      case 1
      then show ?thesis
        by (simp add: setup_cv_raises length_swap_vertices)
    next
      case 2
      then show ?thesis
        by (simp add: setup_cv_wrong_length length_swap_vertices)
    next
      case 3
      then show ?thesis
        by (simp add: setup_cv_eleven length_swap_vertices check_entries_swap_vertices
            envelope_swap_vertices scanSpan_swap_vertices return_code_def
            split: option.split)
    qed
  qed
  then show ?thesis
    by (simp add: referenceTable_swap_vertices scanSpan_swap_vertices)
qed

subsection \<open>Exchanging the two vertex values, on floats\<close>

text \<open>The arithmetic facts of the run on the vertices 0.3 and 4000.3.\<close>

lemma double_values:
  "round_double (3 / 10) = 5404319552844595 / 2 ^ 54"
  "round_double (40003 / 10) = 4398376364592333 / 2 ^ 40"
  by code_simp+

lemma double_facts:
  "round_double (3 / 10) < round_double (round_double (40003 / 10) - round_double 4000)"
  "round_double (round_double (40003 / 10) - round_double 4000) \<le> round_double (40003 / 10)"
  "round_double (40003 / 10) \<le> round_double (round_double (3 / 10) + round_double 4000)"
  "round_double (3 / 10) \<le> 1"
  "1 \<le> round_double (40003 / 10)"
  "round_double (3 / 10) < round_double (40003 / 10)"
  by code_simp+

lemma swap_double_parameters:
  "swap_vertices double_parameters =
     [ (''StartVoltage'', 1), (''FirstVertex'', round_double (40003 / 10)),
       (''SecondVertex'', round_double (3 / 10)),
       (''Stepsize'', 2), (''Scanrate'', 50), (''Cycle'', 2),
       (''LPTIA_Resistor'', 5), (''FixedWEPotential'', 0), (''MainsFilter'', 0),
       (''Sinc2_Oversampling'', 667), (''Sinc3_Oversampling'', 0) ]"
  by (simp add: swap_vertices_def double_parameters_def)


lemmas double_run_defs = setup_cv_double_def item_def Let_def CV_NUM_PARAMETER_def
  fStartPotentialLB_def fStartPotentialUB_def fVoltageRange_double_def
  listReferenceList_double_def sample_limits_def ref_name_def ref_lower_def ref_upper_def
  upt_eleven name_defs ec_defs return_code_def

text \<open>
  Claim C8, as stated: for every list, exchanging the values of the FirstVertex and
  SecondVertex entries gives the same derived bounds, the same scan span and the same
  return value of \<open>setup\<close>. On floats the return value is not the same: with the
  vertices 0.3 and 4000.3 and the envelope 4000 the lower vertex bound is
  4000.3 - 4000, which Python computes as 0.3000000000001819, above 0.3. The smaller
  vertex value is out of bounds and the larger one is not, so \<open>setup\<close> reports position 1
  for the list and position 2 for the list with the values exchanged.
\<close>

theorem vertex_swap_changes_code_in_doubles:
  "snd (double_parameters ! 1) = 5404319552844595 / 2 ^ 54
   \<and> snd (double_parameters ! 2) = 4398376364592333 / 2 ^ 40
   \<and> return_code (setup_cv_double sample_limits double_parameters) = Inr 11201
   \<and> return_code (setup_cv_double sample_limits (swap_vertices double_parameters)) = Inr 11202"
proof -
  have a: "snd (double_parameters ! 1) = 5404319552844595 / 2 ^ 54"
    by (simp only: double_parameters_def nth_Cons_numeral nth_Cons_0 snd_conv double_values)
      simp
  have b: "snd (double_parameters ! 2) = 4398376364592333 / 2 ^ 40"
    by (simp add: double_parameters_def double_values)
  have c: "return_code (setup_cv_double sample_limits double_parameters) = Inr 11201"
    using double_facts by (simp add: double_run_defs double_parameters_def)
  have d: "return_code (setup_cv_double sample_limits (swap_vertices double_parameters))
           = Inr 11202"
    using double_facts by (simp add: double_run_defs swap_double_parameters)
  from a b c d show ?thesis by blast
qed


text \<open>Rounding commutes with the change of sign, so the scan span is symmetric.\<close>

lemma round_half_even_minus: "round_half_even (- y) = - round_half_even y"
proof (cases "y = of_int \<lfloor>y\<rfloor>")
  case True
  then obtain k :: int where "y = of_int k" ..
  then show ?thesis
    by (simp add: round_half_even_def)
next
  case False
  from False have fl: "\<lfloor>- y\<rfloor> = - \<lfloor>y\<rfloor> - 1"
    by (simp add: floor_eq_iff) linarith
  have "y - of_int \<lfloor>y\<rfloor> \<noteq> 0"
    using False by simp
  then show ?thesis
    unfolding round_half_even_def Let_def fl
    by (auto simp: algebra_simps)
qed

lemma binary_exponent_minus: "binary_exponent (- x) = binary_exponent x"
  by (simp add: binary_exponent_def)

lemma round_double_minus: "round_double (- x) = - round_double x"
  by (simp add: round_double_def binary_exponent_minus round_half_even_minus Let_def)

lemma fRange_double_commute: "fRange_double v2 v1 = fRange_double v1 v2"
proof -
  have "round_double (v1 - v2) = - round_double (v2 - v1)"
    using round_double_minus [of "v2 - v1"] by simp
  then show ?thesis
    by (simp add: fRange_double_def)
qed

text \<open>The structure of a run on floats is that of the exact model.\<close>

lemma setup_cv_double_raises: "length ps < 8 \<Longrightarrow> setup_cv_double L ps = Inl IndexError"
  by (simp add: setup_cv_double_def item_def)

lemma setup_cv_double_wrong_length:
  "8 \<le> length ps \<Longrightarrow> length ps \<noteq> 11 \<Longrightarrow>
   setup_cv_double L ps = Inr (EC_SETUP + EC_SE_AMOUNT_PARAMETER, [])"
  by (simp add: setup_cv_double_def item_def CV_NUM_PARAMETER_def Let_def)

lemma setup_cv_double_eleven:
  "length ps = 11 \<Longrightarrow>
   setup_cv_double L ps =
     (case check_entries ps (referenceTable_double L ps) [0 ..< 11] of
        Some c \<Rightarrow> Inr (c, [])
      | None \<Rightarrow>
          if envelope_double L ps \<le> scanSpan_double ps
          then Inr (EC_SETUP + EC_SE_SCAN_RANGE_ERROR, [])
          else Inr (EC_NO_ERROR, success_calls ps))"
  by (simp add: setup_cv_double_def item_def CV_NUM_PARAMETER_def Let_def
      referenceTable_double_def envelope_double_def scanSpan_double_def success_calls_def
      split: option.split)

lemma check_entries_same:
  assumes "\<forall>j\<in>set xs. fst (qs ! j) = fst (ps ! j)
             \<and> ((snd (qs ! j) < ref_lower (refs ! j) \<or> ref_upper (refs ! j) < snd (qs ! j))
                \<longleftrightarrow> (snd (ps ! j) < ref_lower (refs ! j) \<or> ref_upper (refs ! j) < snd (ps ! j)))"
  shows "check_entries qs refs xs = check_entries ps refs xs"
  using assms by (induction xs) simp_all

lemma envelope_double_swap_vertices:
  "envelope_double L (swap_vertices ps) = envelope_double L ps"
  by (simp add: envelope_double_def nth_swap_vertices(3))

lemma scanSpan_double_swap_vertices: "scanSpan_double (swap_vertices ps) = scanSpan_double ps"
proof (cases "3 \<le> length ps")
  case True
  then show ?thesis
    by (simp add: scanSpan_double_def nth_swap_vertices fRange_double_commute)
next
  case False
  then show ?thesis by (simp add: swap_vertices_def)
qed

lemma referenceTable_double_swap_vertices:
  "referenceTable_double L (swap_vertices ps) = referenceTable_double L ps"
proof (cases "3 \<le> length ps")
  case True
  then show ?thesis
    by (simp add: referenceTable_double_def envelope_double_swap_vertices nth_swap_vertices
        fStartPotentialLB_def fStartPotentialUB_def)
next
  case False
  then show ?thesis by (simp add: swap_vertices_def)
qed

lemma vertex_bounds_double_same:
  "ref_lower (referenceTable_double L ps ! Suc 0) = ref_lower (referenceTable_double L ps ! 2)"
  "ref_upper (referenceTable_double L ps ! Suc 0) = ref_upper (referenceTable_double L ps ! 2)"
  by (simp_all add: referenceTable_double_def listReferenceList_double_def ref_lower_def
      ref_upper_def)

lemma out_of_range_double:
  "(snd (ps ! j) < ref_lower (referenceTable_double L ps ! j)
    \<or> ref_upper (referenceTable_double L ps ! j) < snd (ps ! j))
   \<longleftrightarrow> \<not> range_ok_double L ps j"
  by (auto simp: range_ok_double_def)

lemma check_entries_double_swap_vertices:
  assumes "range_ok_double L ps 1 \<longleftrightarrow> range_ok_double L ps 2"
  shows "check_entries (swap_vertices ps) (referenceTable_double L ps) xs
         = check_entries ps (referenceTable_double L ps) xs"
proof (cases "3 \<le> length ps")
  case False
  then show ?thesis by (simp add: swap_vertices_def)
next
  case True
  have same: "range_ok_double L ps (Suc 0) = range_ok_double L ps 2"
    using assms by simp
  show ?thesis
  proof (rule check_entries_same, intro ballI conjI)
    fix j
    show "fst (swap_vertices ps ! j) = fst (ps ! j)"
      by (rule fst_nth_swap_vertices)
    consider "j = Suc 0" | "j = 2" | "j \<noteq> Suc 0" "j \<noteq> 2" by blast
    then show "(snd (swap_vertices ps ! j) < ref_lower (referenceTable_double L ps ! j)
           \<or> ref_upper (referenceTable_double L ps ! j) < snd (swap_vertices ps ! j))
          \<longleftrightarrow> (snd (ps ! j) < ref_lower (referenceTable_double L ps ! j)
           \<or> ref_upper (referenceTable_double L ps ! j) < snd (ps ! j))"
    proof cases
      case 1
      have "(snd (ps ! 2) < ref_lower (referenceTable_double L ps ! 2)
             \<or> ref_upper (referenceTable_double L ps ! 2) < snd (ps ! 2))
            \<longleftrightarrow> (snd (ps ! Suc 0) < ref_lower (referenceTable_double L ps ! Suc 0)
             \<or> ref_upper (referenceTable_double L ps ! Suc 0) < snd (ps ! Suc 0))"
        using same by (simp only: out_of_range_double)
      with 1 True show ?thesis
        by (simp add: nth_swap_vertices vertex_bounds_double_same)
    next
      case 2
      have "(snd (ps ! Suc 0) < ref_lower (referenceTable_double L ps ! Suc 0)
             \<or> ref_upper (referenceTable_double L ps ! Suc 0) < snd (ps ! Suc 0))
            \<longleftrightarrow> (snd (ps ! 2) < ref_lower (referenceTable_double L ps ! 2)
             \<or> ref_upper (referenceTable_double L ps ! 2) < snd (ps ! 2))"
        using same by (simp only: out_of_range_double)
      with 2 True show ?thesis
        by (simp add: nth_swap_vertices vertex_bounds_double_same)
    next
      case 3
      then show ?thesis by (simp add: nth_swap_vertices)
    qed
  qed
qed

lemma range_ok_double_exact:
  assumes "ref_lower (referenceTable_double L ps ! 1)
             = fStartPotentialUB (snd (ps ! 1)) (snd (ps ! 2)) - envelope_double L ps"
    and "ref_upper (referenceTable_double L ps ! 1)
             = fStartPotentialLB (snd (ps ! 1)) (snd (ps ! 2)) + envelope_double L ps"
  shows "range_ok_double L ps 1 \<longleftrightarrow> range_ok_double L ps 2"
  using assms vertex_bounds_double_same [of L ps]
  by (auto simp: range_ok_double_def fStartPotentialLB_def fStartPotentialUB_def
      split: if_splits)

text \<open>
  Claim C8, amended: for every list, exchanging the values of the FirstVertex and
  SecondVertex entries, every other entry unchanged, gives the same derived reference
  bounds and the same scan span; it gives the same return value of \<open>setup\<close> whenever the
  two vertex values are both inside or both outside the vertex bound as computed, which
  is so whenever upperVertex - envelope and lowerVertex + envelope are computed without
  rounding error.
\<close>

theorem vertex_symmetry_doubles:
  "referenceTable_double L (swap_vertices ps) = referenceTable_double L ps
   \<and> scanSpan_double (swap_vertices ps) = scanSpan_double ps
   \<and> ((range_ok_double L ps 1 \<longleftrightarrow> range_ok_double L ps 2) \<longrightarrow>
        return_code (setup_cv_double L (swap_vertices ps)) = return_code (setup_cv_double L ps))
   \<and> (ref_lower (referenceTable_double L ps ! 1)
          = fStartPotentialUB (snd (ps ! 1)) (snd (ps ! 2)) - envelope_double L ps
        \<and> ref_upper (referenceTable_double L ps ! 1)
          = fStartPotentialLB (snd (ps ! 1)) (snd (ps ! 2)) + envelope_double L ps
        \<longrightarrow> (range_ok_double L ps 1 \<longleftrightarrow> range_ok_double L ps 2))"
proof -
  have "return_code (setup_cv_double L (swap_vertices ps)) = return_code (setup_cv_double L ps)"
    if h: "range_ok_double L ps 1 \<longleftrightarrow> range_ok_double L ps 2"
  proof -
    consider "length ps < 8" | "8 \<le> length ps" "length ps \<noteq> 11" | "length ps = 11"
      by linarith
    then show ?thesis
    proof cases
      case 1
      then show ?thesis
        by (simp add: setup_cv_double_raises length_swap_vertices)
    next
      case 2
      then show ?thesis
        by (simp add: setup_cv_double_wrong_length length_swap_vertices)
    next
      case 3
      then show ?thesis
        by (simp add: setup_cv_double_eleven length_swap_vertices
            referenceTable_double_swap_vertices check_entries_double_swap_vertices [OF h]
            envelope_double_swap_vertices scanSpan_double_swap_vertices return_code_def
            split: option.split)
    qed
  qed
  then show ?thesis
    using range_ok_double_exact [of L ps]
    by (simp add: referenceTable_double_swap_vertices scanSpan_double_swap_vertices)
qed

theorem vertex_symmetry_doubles_witness:
  "swap_vertices sample_parameters \<noteq> sample_parameters
   \<and> range_ok_double sample_limits sample_parameters 1
   \<and> range_ok_double sample_limits sample_parameters 2
   \<and> return_code (setup_cv_double sample_limits sample_parameters) = Inr 0
   \<and> return_code (setup_cv_double sample_limits (swap_vertices sample_parameters)) = Inr 0"
proof -
  have a: "swap_vertices sample_parameters \<noteq> sample_parameters" by code_simp
  have b: "range_ok_double sample_limits sample_parameters 1" by code_simp
  have c: "range_ok_double sample_limits sample_parameters 2" by code_simp
  have d: "return_code (setup_cv_double sample_limits sample_parameters) = Inr 0"
    by code_simp
  have "return_code (setup_cv_double sample_limits (swap_vertices sample_parameters)) = Inr 0"
    using vertex_symmetry_doubles [of sample_limits sample_parameters] b c d by simp
  with a b c d show ?thesis by simp
qed

end
